theory Spec2Isabelle
  imports Complex_Main "HOL-Library.Multiset" "HOL-Library.Log_Nat"
begin

section \<open>TIGS: the data model\<close>

text \<open>
  A shallow embedding of \<^verbatim>\<open>tigs.py\<close>. Python's unbounded integers are \<^typ>\<open>int\<close>;
  board positions (keegan indices), which the program only ever produces with
  \<^verbatim>\<open>range\<close> and \<^verbatim>\<open>random.randint(1, ...)\<close>, are \<^typ>\<open>nat\<close>. Scores and differences are
  Python numbers, ints or binary64 floats, with the rounding and the exceptions of the
  operations written out (section ``Python numbers'').

  The module's globals that are read from \<^verbatim>\<open>planets.csv\<close> and from the command line are
  gathered in the record \<open>env\<close>: the data file is not part of the sources, so the catalog is a
  parameter of every function that reads it.
\<close>

datatype error = UnsupportedPlayerCount | ValueError | KeyError | IndexError | OverflowError

type_synonym coord = "int \<times> int \<times> int"

record planet =
  p_resource :: int
  p_influence :: int

record tile =
  t_resource :: int
  t_influence :: int
  skip :: "string option"
  anomaly :: "string option"
  worm :: "string option"
  planets :: "planet list"
  home :: "string option"

record env =
  TILES :: "int \<rightharpoonup> tile"
  NONHOME_TILES :: "int list"
  shuffle :: int
  require :: "int list"
  lock :: "int set"
  exclude :: "int set"

text \<open>Python indexing of a list with a non-negative index: out of range raises.\<close>

definition py_index :: "'a list \<Rightarrow> nat \<Rightarrow> error + 'a" where
  "py_index xs i = (if i < length xs then Inr (xs ! i) else Inl IndexError)"

text \<open>\<^verbatim>\<open>TILES[t]\<close>: a missing key raises.\<close>

definition lookup_tile :: "env \<Rightarrow> int \<Rightarrow> error + tile" where
  "lookup_tile E t = (case TILES E t of None \<Rightarrow> Inl KeyError | Some x \<Rightarrow> Inr x)"

text \<open>The truth value Python gives a tag that is \<^verbatim>\<open>None\<close> or a string.\<close>

definition truthy :: "string option \<Rightarrow> bool" where
  "truthy s = (case s of None \<Rightarrow> False | Some x \<Rightarrow> x \<noteq> [])"

definition bindE :: "error + 'a \<Rightarrow> ('a \<Rightarrow> error + 'b) \<Rightarrow> error + 'b" where
  "bindE m f = (case m of Inl e \<Rightarrow> Inl e | Inr x \<Rightarrow> f x)"

text \<open>A list comprehension whose element expression may raise.\<close>

fun mapE :: "('a \<Rightarrow> error + 'b) \<Rightarrow> 'a list \<Rightarrow> error + 'b list" where
  "mapE f [] = Inr []"
| "mapE f (x # xs) = bindE (f x) (\<lambda>y. bindE (mapE f xs) (\<lambda>ys. Inr (y # ys)))"

text \<open>A list comprehension whose filter may raise.\<close>

fun filterE :: "('a \<Rightarrow> error + bool) \<Rightarrow> 'a list \<Rightarrow> error + 'a list" where
  "filterE f [] = Inr []"
| "filterE f (x # xs) =
     bindE (f x) (\<lambda>keep. bindE (filterE f xs) (\<lambda>ys. Inr (if keep then x # ys else ys)))"

text \<open>A for loop over a list whose body may raise.\<close>

fun foldE :: "('s \<Rightarrow> 'a \<Rightarrow> error + 's) \<Rightarrow> 's \<Rightarrow> 'a list \<Rightarrow> error + 's" where
  "foldE f s [] = Inr s"
| "foldE f s (x # xs) = bindE (f s x) (\<lambda>s'. foldE f s' xs)"

text \<open>\<^verbatim>\<open>any(f(k) for k in ks)\<close> and \<^verbatim>\<open>all(f(k) for k in ks)\<close> stop at the first hit.\<close>

fun any_py :: "('a \<Rightarrow> error + bool) \<Rightarrow> 'a list \<Rightarrow> error + bool" where
  "any_py f [] = Inr False"
| "any_py f (k # ks) = bindE (f k) (\<lambda>r. if r then Inr True else any_py f ks)"

fun all_py :: "('a \<Rightarrow> error + bool) \<Rightarrow> 'a list \<Rightarrow> error + bool" where
  "all_py f [] = Inr True"
| "all_py f (k # ks) = bindE (f k) (\<lambda>r. if r then all_py f ks else Inr False)"

definition MAX_RINGS :: nat where "MAX_RINGS = 4"
definition MECATOL_INDEX :: int where "MECATOL_INDEX = 18"

definition NEIGHBORS :: "coord list" where
  "NEIGHBORS = [(1,0,-1), (0,1,-1), (-1,1,0), (-1,0,1), (0,-1,1), (1,-1,0)]"

section \<open>Python numbers\<close>

text \<open>
  A Python \<^verbatim>\<open>float\<close> is an IEEE 754 binary64 number: a finite value, which is a rational
  number, one of the two infinities, or not-a-number. The two zeros are one value here: the
  program never divides and prints no sign, and \<^verbatim>\<open>0.0 == -0.0\<close>, so it cannot tell them apart.
  Every arithmetic operation on floats computes the exact result and rounds it to the nearest
  binary64 number, ties to the even significand (\<open>round64\<close>).
\<close>

datatype pyfloat = Finite rat | PInf | NInf | NaN

definition pow2 :: "int \<Rightarrow> rat" where
  "pow2 k = power_int 2 k"

text \<open>The binary exponent of a positive rational: \<open>2 ^ e \<le> x < 2 ^ (e + 1)\<close>.\<close>

definition exponent2 :: "rat \<Rightarrow> int" where
  "exponent2 x = (case quotient_of x of (p, q) \<Rightarrow>
      (let k = bitlen p - bitlen q in if pow2 k \<le> x then k else k - 1))"

definition round_half_even :: "rat \<Rightarrow> int" where
  "round_half_even x =
     (let f = \<lfloor>x\<rfloor>; d = x - of_int f
      in if d < 1/2 then f else if d > 1/2 then f + 1 else if even f then f else f + 1)"

text \<open>
  Rounding to binary64: 53 significant bits, the exponent not below -1022 (below it the
  spacing of the subnormal numbers stays \<open>2 ^ -1074\<close>), and a result of \<open>2 ^ 1024\<close> or more
  (one whose integer part has more than 1024 bits) overflows to an infinity.
\<close>

definition round64 :: "rat \<Rightarrow> pyfloat" where
  "round64 x =
     (if x = 0 then Finite 0
      else (let a = \<bar>x\<bar>;
                e = max (exponent2 a) (- 1022);
                ulp = pow2 (e - 52);
                r = of_int (round_half_even (a / ulp)) * ulp
            in if 1024 < bitlen \<lfloor>r\<rfloor> then (if x > 0 then PInf else NInf)
               else Finite (if x > 0 then r else - r)))"

fun fneg :: "pyfloat \<Rightarrow> pyfloat" where
  "fneg (Finite a) = Finite (- a)"
| "fneg PInf = NInf"
| "fneg NInf = PInf"
| "fneg NaN = NaN"

fun fabs :: "pyfloat \<Rightarrow> pyfloat" where
  "fabs (Finite a) = Finite \<bar>a\<bar>"
| "fabs PInf = PInf"
| "fabs NInf = PInf"
| "fabs NaN = NaN"

fun fadd :: "pyfloat \<Rightarrow> pyfloat \<Rightarrow> pyfloat" where
  "fadd (Finite a) (Finite b) = round64 (a + b)"
| "fadd NaN y = NaN"
| "fadd x NaN = NaN"
| "fadd PInf NInf = NaN"
| "fadd NInf PInf = NaN"
| "fadd PInf y = PInf"
| "fadd x PInf = PInf"
| "fadd NInf y = NInf"
| "fadd x NInf = NInf"

definition fsub :: "pyfloat \<Rightarrow> pyfloat \<Rightarrow> pyfloat" where
  "fsub x y = fadd x (fneg y)"

fun fsgn :: "pyfloat \<Rightarrow> int" where
  "fsgn (Finite a) = (if a = 0 then 0 else if a > 0 then 1 else - 1)"
| "fsgn PInf = 1"
| "fsgn NInf = - 1"
| "fsgn NaN = 0"

text \<open>An infinity times zero is not a number; otherwise the signs multiply.\<close>

fun fmul :: "pyfloat \<Rightarrow> pyfloat \<Rightarrow> pyfloat" where
  "fmul (Finite a) (Finite b) = round64 (a * b)"
| "fmul NaN y = NaN"
| "fmul x NaN = NaN"
| "fmul x y = (let s = fsgn x * fsgn y in if s = 0 then NaN else if s > 0 then PInf else NInf)"

text \<open>Comparisons: every comparison with not-a-number is false.\<close>

fun flt :: "pyfloat \<Rightarrow> pyfloat \<Rightarrow> bool" where
  "flt (Finite a) (Finite b) = (a < b)"
| "flt (Finite a) PInf = True"
| "flt NInf (Finite b) = True"
| "flt NInf PInf = True"
| "flt x y = False"

fun feq :: "pyfloat \<Rightarrow> pyfloat \<Rightarrow> bool" where
  "feq (Finite a) (Finite b) = (a = b)"
| "feq PInf PInf = True"
| "feq NInf NInf = True"
| "feq x y = False"

text \<open>
  The numbers of the program are \<^verbatim>\<open>int\<close> or \<^verbatim>\<open>float\<close> objects. An operation on two ints is
  exact. An operation with a float operand converts an int operand to float first: the
  conversion rounds to nearest-even and raises \<^verbatim>\<open>OverflowError\<close> when the int is too large for
  a float. The float operation itself never raises. A comparison of an int with a float
  compares the exact values and never raises.
\<close>

datatype pynum = PyInt int | PyFloat pyfloat

definition float_of_int :: "int \<Rightarrow> error + pyfloat" where
  "float_of_int i =
     (case round64 (of_int i) of Finite r \<Rightarrow> Inr (Finite r) | _ \<Rightarrow> Inl OverflowError)"

fun to_float :: "pynum \<Rightarrow> error + pyfloat" where
  "to_float (PyInt i) = float_of_int i"
| "to_float (PyFloat x) = Inr x"

fun num_mul :: "pynum \<Rightarrow> pynum \<Rightarrow> error + pynum" where
  "num_mul (PyInt a) (PyInt b) = Inr (PyInt (a * b))"
| "num_mul x y = bindE (to_float x) (\<lambda>a. bindE (to_float y) (\<lambda>b. Inr (PyFloat (fmul a b))))"

fun num_add :: "pynum \<Rightarrow> pynum \<Rightarrow> error + pynum" where
  "num_add (PyInt a) (PyInt b) = Inr (PyInt (a + b))"
| "num_add x y = bindE (to_float x) (\<lambda>a. bindE (to_float y) (\<lambda>b. Inr (PyFloat (fadd a b))))"

fun num_sub :: "pynum \<Rightarrow> pynum \<Rightarrow> error + pynum" where
  "num_sub (PyInt a) (PyInt b) = Inr (PyInt (a - b))"
| "num_sub x y = bindE (to_float x) (\<lambda>a. bindE (to_float y) (\<lambda>b. Inr (PyFloat (fsub a b))))"

fun num_abs :: "pynum \<Rightarrow> pynum" where
  "num_abs (PyInt a) = PyInt \<bar>a\<bar>"
| "num_abs (PyFloat x) = PyFloat (fabs x)"

fun num_val :: "pynum \<Rightarrow> pyfloat" where
  "num_val (PyInt a) = Finite (of_int a)"
| "num_val (PyFloat x) = x"

definition num_lt :: "pynum \<Rightarrow> pynum \<Rightarrow> bool" where
  "num_lt x y = flt (num_val x) (num_val y)"

definition num_gt :: "pynum \<Rightarrow> pynum \<Rightarrow> bool" where
  "num_gt x y = flt (num_val y) (num_val x)"

definition num_eq :: "pynum \<Rightarrow> pynum \<Rightarrow> bool" where
  "num_eq x y = feq (num_val x) (num_val y)"

text \<open>
  An expression \<^verbatim>\<open>x op y\<close> evaluates \<open>x\<close>, then \<open>y\<close>, then applies the operation; an exception
  raised on the way ends the evaluation.
\<close>

definition py_add :: "error + pynum \<Rightarrow> error + pynum \<Rightarrow> error + pynum" where
  "py_add x y = bindE x (\<lambda>a. bindE y (\<lambda>b. num_add a b))"

definition py_sub :: "error + pynum \<Rightarrow> error + pynum \<Rightarrow> error + pynum" where
  "py_sub x y = bindE x (\<lambda>a. bindE y (\<lambda>b. num_sub a b))"

definition py_mul :: "error + pynum \<Rightarrow> error + pynum \<Rightarrow> error + pynum" where
  "py_mul x y = bindE x (\<lambda>a. bindE y (\<lambda>b. num_mul a b))"

definition py_abs :: "error + pynum \<Rightarrow> error + pynum" where
  "py_abs x = bindE x (\<lambda>a. Inr (num_abs a))"

subsection \<open>class WEIGHTS\<close>

text \<open>
  The weights as the source writes them: \<^verbatim>\<open>-2\<close>, \<^verbatim>\<open>3\<close> and \<^verbatim>\<open>4\<close> are ints, the others float
  literals, each of which is a binary64 number (a multiple of 1/8).
\<close>

definition DIFF_SCORE :: pynum where "DIFF_SCORE = PyFloat (Finite 1)"
definition DIFF_RES :: pynum where "DIFF_RES = PyFloat (Finite (1/2))"
definition DIFF_INF :: pynum where "DIFF_INF = PyFloat (Finite (1/2))"
definition DIFF_WORM :: pynum where "DIFF_WORM = PyFloat (Finite 5)"
definition DIFF_ANOM :: pynum where "DIFF_ANOM = PyFloat (Finite 5)"
definition DIFF_SKIP :: pynum where "DIFF_SKIP = PyFloat (Finite 5)"
definition DIFF_HOP1 :: pynum where "DIFF_HOP1 = PyFloat (Finite 1)"
definition DIFF_HOP2C :: pynum where "DIFF_HOP2C = PyFloat (Finite (1/8))"
definition DIFF_HOP2U :: pynum where "DIFF_HOP2U = PyFloat (Finite (1/4))"
definition SCORE_EFF_RESOURCE :: pynum where "SCORE_EFF_RESOURCE = PyFloat (Finite (3/4))"
definition SCORE_RESOURCE :: pynum where "SCORE_RESOURCE = PyFloat (Finite (1/4))"
definition SCORE_EFF_INFLUENCE :: pynum where "SCORE_EFF_INFLUENCE = PyFloat (Finite (3/4))"
definition SCORE_INFLUENCE :: pynum where "SCORE_INFLUENCE = PyFloat (Finite (1/4))"
definition SCORE_SKIPS :: pynum where "SCORE_SKIPS = PyFloat (Finite (1/2))"
definition SCORE_ADJ_WORM :: pynum where "SCORE_ADJ_WORM = PyInt (- 2)"
definition SCORE_HOP2_WORM :: pynum where "SCORE_HOP2_WORM = PyFloat (Finite (1/4))"
definition SCORE_MIN_HOP1_PLANET_SYS :: int where "SCORE_MIN_HOP1_PLANET_SYS = 3"
definition SCORE_MAX_HOP1_PLANET_SYS :: int where "SCORE_MAX_HOP1_PLANET_SYS = 4"
definition SCORE_HOP1 :: pynum where "SCORE_HOP1 = PyFloat (Finite 1)"
definition SCORE_HOP2C :: pynum where "SCORE_HOP2C = PyFloat (Finite (1/8))"
definition SCORE_HOP2U :: pynum where "SCORE_HOP2U = PyFloat (Finite (1/4))"


section \<open>class HomeStats\<close>

record HomeStats =
  hop :: int
  sub_category :: "string option"
  resource :: int
  influence :: int
  eff_resource :: int
  eff_influence :: int
  eff_both :: int
  skips :: "string list"
  worms :: int
  anomalies :: int
  planet_systems :: int

text \<open>\<^verbatim>\<open>is_home(tile_index)\<close>\<close>

definition is_home :: "env \<Rightarrow> int \<Rightarrow> error + bool" where
  "is_home E tile_index =
     (if tile_index = 0 then Inr True
      else bindE (lookup_tile E tile_index) (\<lambda>t. Inr (home t \<noteq> None)))"

text \<open>\<^verbatim>\<open>HomeStats.reset\<close>: every statistic to zero; \<open>hop\<close> and \<open>sub_category\<close> stay.\<close>

definition reset :: "HomeStats \<Rightarrow> HomeStats" where
  "reset s = s\<lparr>resource := 0, influence := 0, eff_resource := 0, eff_influence := 0,
     eff_both := 0, skips := [], worms := 0, anomalies := 0, planet_systems := 0\<rparr>"

text \<open>\<^verbatim>\<open>HomeStats.__init__(hop, sub_category)\<close>\<close>

definition HomeStats_init :: "int \<Rightarrow> string option \<Rightarrow> HomeStats" where
  "HomeStats_init h c = \<lparr>hop = h, sub_category = c, resource = 0, influence = 0,
     eff_resource = 0, eff_influence = 0, eff_both = 0, skips = [], worms = 0, anomalies = 0,
     planet_systems = 0\<rparr>"

text \<open>\<^verbatim>\<open>HomeStats.__iadd__\<close>: the statement \<^verbatim>\<open>self += rhs\<close>, returning the updated \<open>self\<close>.\<close>

definition iadd :: "HomeStats \<Rightarrow> HomeStats \<Rightarrow> HomeStats" where
  "iadd self rhs = self\<lparr>
     resource := resource self + resource rhs,
     influence := influence self + influence rhs,
     eff_resource := eff_resource self + eff_resource rhs,
     eff_influence := eff_influence self + eff_influence rhs,
     eff_both := eff_both self + eff_both rhs,
     skips := skips self @ skips rhs,
     worms := worms self + worms rhs,
     anomalies := anomalies self + anomalies rhs,
     planet_systems := planet_systems self + planet_systems rhs\<rparr>"

text \<open>The body of the loop over a tile's planets in \<^verbatim>\<open>add_tile\<close>.\<close>

definition add_planet :: "HomeStats \<Rightarrow> planet \<Rightarrow> HomeStats" where
  "add_planet s p =
     (let r = p_resource p; i = p_influence p;
          s1 = s\<lparr>resource := resource s + r, influence := influence s + i\<rparr>
      in if r > i then s1\<lparr>eff_resource := eff_resource s1 + r\<rparr>
         else if r < i then s1\<lparr>eff_influence := eff_influence s1 + i\<rparr>
         else s1\<lparr>eff_both := eff_both s1 + r\<rparr>)"

text \<open>\<^verbatim>\<open>HomeStats.add_tile\<close>; Python adds the booleans as 0 and 1.\<close>

definition add_tile :: "HomeStats \<Rightarrow> tile \<Rightarrow> HomeStats" where
  "add_tile s t =
     (let s1 = foldl add_planet s (planets t);
          s2 = s1\<lparr>planet_systems := planet_systems s1 + (if t_resource t + t_influence t > 0 then 1 else 0)\<rparr>;
          s3 = s2\<lparr>worms := worms s2 + (if worm t \<noteq> None then 1 else 0)\<rparr>;
          s4 = s3\<lparr>anomalies := anomalies s3 + (if anomaly t \<noteq> None then 1 else 0)\<rparr>
      in if truthy (skip t) then s4\<lparr>skips := skips s4 @ [the (skip t)]\<rparr> else s4)"

text \<open>The loop of \<^verbatim>\<open>HomeStats.update\<close> over \<open>tile_indices\<close>, after the reset.\<close>

fun update_loop :: "env \<Rightarrow> int list \<Rightarrow> nat list \<Rightarrow> HomeStats \<Rightarrow> error + HomeStats" where
  "update_loop E board [] s = Inr s"
| "update_loop E board (k # ks) s =
     bindE (py_index board k) (\<lambda>tile_index.
     bindE (is_home E tile_index) (\<lambda>h.
       if \<not> h then bindE (lookup_tile E tile_index) (\<lambda>t. update_loop E board ks (add_tile s t))
       else update_loop E board ks s))"

definition update :: "env \<Rightarrow> HomeStats \<Rightarrow> nat list \<Rightarrow> int list \<Rightarrow> error + HomeStats" where
  "update E s tile_indices board = update_loop E board tile_indices (reset s)"

text \<open>
  \<^verbatim>\<open>HomeStats.score\<close>. \<^verbatim>\<open>sum\<close> starts from the int 0 and adds the products from left to
  right, each addition rounded; the products are those of \<^verbatim>\<open>zip(w,v)\<close>, as in the source.
  (From CPython 3.12 on, \<^verbatim>\<open>sum\<close> compensates the rounding errors of float additions; that
  gives the same result whenever the additions are exact.)
\<close>

definition score :: "HomeStats \<Rightarrow> error + pynum" where
  "score s =
     (let w = [SCORE_EFF_RESOURCE, SCORE_RESOURCE, SCORE_EFF_INFLUENCE, SCORE_INFLUENCE,
               SCORE_SKIPS, (if hop s = 1 then SCORE_ADJ_WORM else SCORE_HOP2_WORM)];
          v = [eff_resource s + eff_both s, resource s, eff_influence s, resource s,
               int (length (skips s)), worms s];
          score0 = foldl (\<lambda>acc elem. py_add acc (py_mul (Inr (fst elem)) (Inr (PyInt (snd elem)))))
                     (Inr (PyInt 0)) (zip w v)
      in if hop s = 1 then
           (let score1 = (if planet_systems s > SCORE_MAX_HOP1_PLANET_SYS
                          then py_add score0 (Inr (PyInt (- 100))) else score0)
            in if planet_systems s < SCORE_MIN_HOP1_PLANET_SYS
               then py_add score1 (Inr (PyInt (- 100))) else score1)
         else score0)"

text \<open>\<^verbatim>\<open>HomeStats.difference\<close>: six statements \<^verbatim>\<open>diff += weight * abs(...)\<close> after \<^verbatim>\<open>diff = 0\<close>.\<close>

definition difference :: "HomeStats \<Rightarrow> HomeStats \<Rightarrow> error + pynum" where
  "difference self other =
     (let diff0 = Inr (PyInt 0);
          diff1 = py_add diff0 (py_mul (Inr DIFF_SCORE) (py_abs (py_sub (score self) (score other))));
          diff2 = py_add diff1 (py_mul (Inr DIFF_RES)
                    (Inr (PyInt \<bar>resource self - resource other\<bar>)));
          diff3 = py_add diff2 (py_mul (Inr DIFF_INF)
                    (Inr (PyInt \<bar>influence self - influence other\<bar>)));
          diff4 = py_add diff3 (py_mul (Inr DIFF_WORM)
                    (Inr (PyInt \<bar>worms self - worms other\<bar>)));
          diff5 = py_add diff4 (py_mul (Inr DIFF_ANOM)
                    (Inr (PyInt \<bar>anomalies self - anomalies other\<bar>)))
      in py_add diff5 (py_mul (Inr DIFF_SKIP)
           (Inr (PyInt \<bar>int (length (skips self)) - int (length (skips other))\<bar>))))"

section \<open>Hex geometry\<close>

text \<open>\<^verbatim>\<open>cube_add\<close>, \<^verbatim>\<open>cube_distance\<close>\<close>

fun cube_add :: "coord \<Rightarrow> coord \<Rightarrow> coord" where
  "cube_add (a, b, c) (x, y, z) = (a + x, b + y, c + z)"

fun cube_distance :: "coord \<Rightarrow> coord \<Rightarrow> int" where
  "cube_distance (a, b, c) (x, y, z) = max (max \<bar>a - x\<bar> \<bar>b - y\<bar>) \<bar>c - z\<bar>"

text \<open>
  \<^verbatim>\<open>cube_ring(n)\<close>: the inner loop \<^verbatim>\<open>for k in range(n)\<close> appends the current coordinate
  and steps along \<open>side\<close>; the outer loop runs it for each of the six \<open>NEIGHBORS\<close>. The state
  of both loops is the pair (RING, coord).
\<close>

fun ring_side :: "coord \<Rightarrow> nat \<Rightarrow> coord list \<times> coord \<Rightarrow> coord list \<times> coord" where
  "ring_side side 0 st = st"
| "ring_side side (Suc k) (ring, c) = ring_side side k (ring @ [c], cube_add c side)"

definition cube_ring :: "int \<Rightarrow> coord list" where
  "cube_ring n =
     (if n \<le> 0 then [(0, 0, 0)]
      else fst (foldl (\<lambda>st side. ring_side side (nat n) st) ([], (0, - n, n)) NEIGHBORS))"

text \<open>\<^verbatim>\<open>init_hex_coords\<close>: the three global tables.\<close>

definition KEEGAN_TO_COORD :: "coord list" where
  "KEEGAN_TO_COORD = concat (map (\<lambda>ring. cube_ring (int ring)) [0..<MAX_RINGS + 1])"

text \<open>The dict comprehension assigns key by key, a later index overwriting an earlier one.\<close>

definition COORD_TO_KEEGAN :: "coord \<rightharpoonup> nat" where
  "COORD_TO_KEEGAN =
     foldl (\<lambda>m k. m(KEEGAN_TO_COORD ! k \<mapsto> k)) Map.empty [0..<length KEEGAN_TO_COORD]"

definition adjacent_of :: "coord \<Rightarrow> nat list" where
  "adjacent_of c =
     foldl (\<lambda>adjacent offset.
              (case COORD_TO_KEEGAN (cube_add c offset) of
                 Some k \<Rightarrow> adjacent @ [k]
               | None \<Rightarrow> adjacent)) [] NEIGHBORS"

definition KEEGAN_ADJACENT :: "nat list list" where
  "KEEGAN_ADJACENT = map (\<lambda>k. adjacent_of (KEEGAN_TO_COORD ! k)) [0..<length KEEGAN_TO_COORD]"

section \<open>class Home\<close>

text \<open>
  A \<open>Home\<close> object gets its fields in two steps: \<^verbatim>\<open>__init__\<close> sets the geometry
  (\<open>Home0\<close>), \<^verbatim>\<open>initialize_hop2_tile_lists\<close> adds the 2-hop lists and the statistics.
  The attribute \<^verbatim>\<open>hop\<close> of a home is the field \<open>hops\<close> here (\<open>hop\<close> is the field of
  \<open>HomeStats\<close>).
\<close>

record Home0 =
  index :: nat
  keegan :: nat
  coord :: coord
  dist_to :: "int list"
  hops :: "nat list list"

record Home = Home0 +
  hop2u :: "nat list"
  hop2c :: "nat list"
  stats1 :: HomeStats
  stats2u :: HomeStats
  stats2c :: HomeStats
  stats2t :: HomeStats

text \<open>\<^verbatim>\<open>Home.__init__(index, keegan, num_tiles)\<close>\<close>

definition Home_init :: "nat \<Rightarrow> nat \<Rightarrow> nat \<Rightarrow> error + Home0" where
  "Home_init idx kg n_tiles =
     bindE (py_index KEEGAN_TO_COORD kg) (\<lambda>c.
     bindE (mapE (\<lambda>k. bindE (py_index KEEGAN_TO_COORD k) (\<lambda>ck. Inr (cube_distance c ck)))
              [0..<n_tiles]) (\<lambda>d.
     Inr \<lparr>index = idx, keegan = kg, coord = c, dist_to = d,
          hops = map (\<lambda>h. filter (\<lambda>i. d ! i = int h) [0..<length d]) [0..<3]\<rparr>))"

text \<open>\<^verbatim>\<open>Home.initialize_hop2_tile_lists(all_homes)\<close>\<close>

definition initialize_hop2_tile_lists :: "Home0 \<Rightarrow> Home0 list \<Rightarrow> Home" where
  "initialize_hop2_tile_lists self all_homes =
     (let other_hop1 = foldl (\<lambda>acc h. if index h \<noteq> index self then acc \<union> set (hops h ! 1) else acc)
                         {} all_homes;
          other_hop2 = foldl (\<lambda>acc h. if index h \<noteq> index self then acc \<union> set (hops h ! 2) else acc)
                         {} all_homes
      in \<lparr>index = index self, keegan = keegan self, coord = coord self, dist_to = dist_to self,
          hops = hops self,
          hop2u = filter (\<lambda>k. k \<notin> other_hop2 \<and> k \<notin> other_hop1) (hops self ! 2),
          hop2c = filter (\<lambda>k. k \<in> other_hop2 \<and> k \<notin> other_hop1) (hops self ! 2),
          stats1 = HomeStats_init 1 None,
          stats2u = HomeStats_init 2 (Some ''U''),
          stats2c = HomeStats_init 2 (Some ''C''),
          stats2t = HomeStats_init 2 (Some ''T'')\<rparr>)"

text \<open>\<^verbatim>\<open>Home.update_stats(tiles)\<close>\<close>

definition Home_update_stats :: "env \<Rightarrow> int list \<Rightarrow> Home \<Rightarrow> error + Home" where
  "Home_update_stats E ts h =
     bindE (update E (stats1 h) (hops h ! 1) ts) (\<lambda>s1.
     bindE (update E (stats2u h) (hop2u h) ts) (\<lambda>s2u.
     bindE (update E (stats2c h) (hop2c h) ts) (\<lambda>s2c.
     Inr (h\<lparr>stats1 := s1, stats2u := s2u, stats2c := s2c,
             stats2t := iadd (iadd (reset (stats2t h)) s2u) s2c\<rparr>))))"

text \<open>\<^verbatim>\<open>Home.score\<close> and \<^verbatim>\<open>Home.difference\<close>\<close>

definition Home_score :: "Home \<Rightarrow> error + pynum" where
  "Home_score self =
     py_add (py_add (py_mul (Inr SCORE_HOP1) (score (stats1 self)))
                    (py_mul (Inr SCORE_HOP2U) (score (stats2u self))))
            (py_mul (Inr SCORE_HOP2C) (score (stats2c self)))"

definition Home_difference :: "Home \<Rightarrow> Home \<Rightarrow> error + pynum" where
  "Home_difference self other_home =
     py_add (py_add (py_mul (Inr DIFF_HOP1) (difference (stats1 self) (stats1 other_home)))
                    (py_mul (Inr DIFF_HOP2C) (difference (stats2c self) (stats2c other_home))))
            (py_mul (Inr DIFF_HOP2U) (difference (stats2u self) (stats2c other_home)))"

section \<open>Randomness\<close>

text \<open>
  The process-wide pseudorandom source is an infinite sequence of draws: \<open>Rng f\<close> is the
  source whose draw \<open>i\<close> steps ahead is \<open>f i\<close>. A function that draws takes the first one and returns the sequence of the
  rest. \<^verbatim>\<open>random.randint(a, b)\<close> raises on an empty range and maps a draw into \<open>[a, b]\<close>
  otherwise, so every value of the range is the result of some draw.
  \<^verbatim>\<open>random.sample(population, k)\<close> raises when \<open>k\<close> is negative or larger than the population
  and otherwise picks \<open>k\<close> entries at distinct positions, one draw each; every such selection
  in every order is the result of some sequence of draws.
\<close>

datatype rng = Rng "nat \<Rightarrow> nat"

fun first_draw :: "rng \<Rightarrow> nat" where
  "first_draw (Rng f) = f 0"

fun later_draws :: "rng \<Rightarrow> rng" where
  "later_draws (Rng f) = Rng (\<lambda>i. f (Suc i))"

definition randint :: "int \<Rightarrow> int \<Rightarrow> rng \<Rightarrow> error + int \<times> rng" where
  "randint a b rng =
     (if b < a then Inl ValueError
      else Inr (a + int (first_draw rng mod nat (b - a + 1)), later_draws rng))"

fun sample_loop :: "'a list \<Rightarrow> nat \<Rightarrow> rng \<Rightarrow> 'a list \<times> rng" where
  "sample_loop pool 0 rng = ([], rng)"
| "sample_loop pool (Suc k) rng =
     (let j = first_draw rng mod length pool;
          (rest, rng') = sample_loop (take j pool @ drop (Suc j) pool) k (later_draws rng)
      in (pool ! j # rest, rng'))"

definition sample :: "'a list \<Rightarrow> int \<Rightarrow> rng \<Rightarrow> (error + 'a list) \<times> rng" where
  "sample population k rng =
     (if k < 0 \<or> int (length population) < k then (Inl ValueError, rng)
      else (case sample_loop population (nat k) rng of (s, rng') \<Rightarrow> (Inr s, rng')))"

text \<open>
  \<^verbatim>\<open>itertools.permutations(xs, r)\<close>: the arrangements of \<open>r\<close> entries at distinct positions, in
  lexicographic order of the positions; a negative \<open>r\<close> raises.
\<close>

fun perms_of :: "'a list \<Rightarrow> nat \<Rightarrow> 'a list list" where
  "perms_of xs 0 = [[]]"
| "perms_of xs (Suc r) =
     concat (map (\<lambda>i. map (\<lambda>p. xs ! i # p) (perms_of (take i xs @ drop (Suc i) xs) r))
                 [0..<length xs])"

definition permutations :: "'a list \<Rightarrow> int \<Rightarrow> error + 'a list list" where
  "permutations xs r = (if r < 0 then Inl ValueError else Inr (perms_of xs (nat r)))"

text \<open>\<^verbatim>\<open>itertools.combinations(range(n), 2)\<close>\<close>

definition combinations2 :: "nat \<Rightarrow> (nat \<times> nat) list" where
  "combinations2 n = concat (map (\<lambda>i. map (\<lambda>j. (i, j)) [Suc i..<n]) [0..<n])"

section \<open>class Board\<close>

record Board =
  tiles :: "int list"
  unused :: "int list"
  homes :: "Home list"
  num_homes :: nat
  num_tiles :: nat

text \<open>\<^verbatim>\<open>list.insert(k, x)\<close> for \<open>k \<ge> 0\<close>: past the end it appends.\<close>

definition py_insert :: "'a list \<Rightarrow> nat \<Rightarrow> 'a \<Rightarrow> 'a list" where
  "py_insert xs k x = take k xs @ [x] @ drop k xs"

text \<open>The home positions of \<^verbatim>\<open>generate_random_board\<close>; any other count raises.\<close>

definition home_keegan_of :: "int \<Rightarrow> error + nat list" where
  "home_keegan_of n =
     (if n = 4 then Inr [23,27,32,36]
      else if n = 6 then Inr [19,22,25,28,31,34]
      else if n = 8 then Inr [37,40,43,46,49,52,55,58]
      else Inl UnsupportedPlayerCount)"

text \<open>
  \<^verbatim>\<open>for r in FLAGS.require: del all_tiles[all_tiles.index(r)]\<close>: \<open>index\<close> raises when \<open>r\<close> is
  not in the list, and the deletion removes the first occurrence.
\<close>

fun del_required :: "int list \<Rightarrow> int list \<Rightarrow> error + int list" where
  "del_required [] all_tiles = Inr all_tiles"
| "del_required (r # rs) all_tiles =
     (if r \<in> set all_tiles then del_required rs (remove1 r all_tiles) else Inl ValueError)"

text \<open>
  \<^verbatim>\<open>Board.generate_random_board(n)\<close>. It reads no field of the board and writes none; the
  only state it touches is the random source, which is returned next to the result (or the
  error).
\<close>

definition generate_random_board :: "env \<Rightarrow> int \<Rightarrow> rng \<Rightarrow> (error + int list) \<times> rng" where
  "generate_random_board E n rng =
     (case home_keegan_of n of
        Inl e \<Rightarrow> (Inl e, rng)
      | Inr home_keegan \<Rightarrow>
          (let n_tiles = (if n \<le> 6 then 37 else 61 :: int);
               all_tiles = filter (\<lambda>i. i \<noteq> MECATOL_INDEX) (NONHOME_TILES E);
               tile_list = [MECATOL_INDEX] @ require E
           in case del_required (require E) all_tiles of
                Inl e \<Rightarrow> (Inl e, rng)
              | Inr all_tiles' \<Rightarrow>
                  (case sample all_tiles' (n_tiles - int (length tile_list) - n) rng of
                     (Inl e, rng') \<Rightarrow> (Inl e, rng')
                   | (Inr s, rng') \<Rightarrow>
                       (Inr (foldl (\<lambda>tl k. py_insert tl k 0) (tile_list @ s) home_keegan), rng'))))"

text \<open>\<^verbatim>\<open>Board.update_unused\<close>, \<^verbatim>\<open>Board.update_stats\<close>\<close>

definition update_unused :: "env \<Rightarrow> Board \<Rightarrow> Board" where
  "update_unused E b =
     b\<lparr>unused := filter (\<lambda>t. t \<notin> set (tiles b) \<and> t \<notin> exclude E) (NONHOME_TILES E)\<rparr>"

definition update_stats :: "env \<Rightarrow> Board \<Rightarrow> error + Board" where
  "update_stats E b =
     bindE (mapE (Home_update_stats E (tiles b)) (homes b)) (\<lambda>hs. Inr (b\<lparr>homes := hs\<rparr>))"

text \<open>\<^verbatim>\<open>Board.get_imbalance\<close>: \<open>num_homes\<close> is a field of its own, so a home is read by index.\<close>

definition get_imbalance :: "Board \<Rightarrow> error + pynum" where
  "get_imbalance b =
     foldE (\<lambda>max_diff pair.
              bindE (py_index (homes b) (fst pair)) (\<lambda>h0.
              bindE (py_index (homes b) (snd pair)) (\<lambda>h1.
              bindE (Home_difference h0 h1) (\<lambda>diff.
                Inr (if num_gt diff max_diff then diff else max_diff)))))
           (PyInt 0) (combinations2 (num_homes b))"

text \<open>
  \<^verbatim>\<open>Board.__init__(board, num_homes)\<close>: a non-empty \<open>board\<close> is copied, otherwise (\<open>None\<close> or
  the empty list) a random board is generated.
\<close>

definition Board_init :: "env \<Rightarrow> int list \<Rightarrow> int \<Rightarrow> rng \<Rightarrow> error + Board \<times> rng" where
  "Board_init E board n_homes rng =
     bindE (if board \<noteq> [] then Inr (board, rng)
            else (case generate_random_board E n_homes rng of
                    (Inl e, _) \<Rightarrow> Inl e | (Inr ts, rng') \<Rightarrow> Inr (ts, rng'))) (\<lambda>(ts, rng').
     bindE (filterE (\<lambda>i. is_home E (ts ! i)) [0..<length ts]) (\<lambda>home_keegan.
     bindE (mapE (\<lambda>i. Home_init i (home_keegan ! i) (length ts)) [0..<length home_keegan]) (\<lambda>h0s.
       (let b0 = \<lparr>tiles = ts, unused = [],
                  homes = map (\<lambda>h. initialize_hop2_tile_lists h h0s) h0s,
                  num_homes = length home_keegan, num_tiles = length ts\<rparr>
        in bindE (update_stats E (update_unused E b0)) (\<lambda>b. Inr (b, rng'))))))"

text \<open>
  \<^verbatim>\<open>Board.is_valid(keegan)\<close>. Each of the four checks has the shape
  \<^verbatim>\<open>if cond: if any(...): return False\<close>; \<open>check\<close> is that shape, followed by the rest.
  \<^verbatim>\<open>KEEGAN_ADJACENT[keegan]\<close> is read when the generator is built, its elements one by one.
\<close>

definition check :: "bool \<Rightarrow> (error + bool) \<Rightarrow> (error + bool) \<Rightarrow> error + bool" where
  "check cond hit rest = (if cond then bindE hit (\<lambda>r. if r then Inr False else rest) else rest)"

definition any_neighbor :: "Board \<Rightarrow> nat \<Rightarrow> (int \<Rightarrow> error + bool) \<Rightarrow> error + bool" where
  "any_neighbor b kg f =
     bindE (py_index KEEGAN_ADJACENT kg) (\<lambda>adj.
       any_py (\<lambda>k. bindE (py_index (tiles b) k) f) (filter (\<lambda>k. k < num_tiles b) adj))"

definition is_valid :: "env \<Rightarrow> Board \<Rightarrow> nat \<Rightarrow> error + bool" where
  "is_valid E b kg =
     bindE (py_index (tiles b) kg) (\<lambda>ti.
     bindE (lookup_tile E ti) (\<lambda>tile.
       check (truthy (anomaly tile))
         (any_neighbor b kg (\<lambda>tk. if tk > 0 then bindE (lookup_tile E tk) (\<lambda>t. Inr (anomaly t \<noteq> None))
                                   else Inr False))
      (check (truthy (worm tile))
         (any_neighbor b kg (\<lambda>tk. if tk > 0 then bindE (lookup_tile E tk) (\<lambda>t. Inr (worm tile = worm t))
                                   else Inr False))
      (check (skip tile = Some ''legend'')
         (any_neighbor b kg (\<lambda>tk. Inr (tk = 0)))
      (check (truthy (worm tile))
         (any_neighbor b kg (\<lambda>tk. Inr (tk = 0)))
      (Inr True))))))"

text \<open>
  \<^verbatim>\<open>Board.improve\<close>. The \<^verbatim>\<open>while True\<close> loop that draws one position may run forever
  (a stream that keeps drawing rejected positions), so it is a partial function: \<open>None\<close> is
  ``does not return''.
\<close>

partial_function (option) pick_keegan ::
  "env \<Rightarrow> Board \<Rightarrow> nat list \<Rightarrow> rng \<Rightarrow> (error + nat \<times> rng) option" where
  "pick_keegan E b shuffle_keegan rng =
     (case randint 1 (int (num_tiles b) - 1) rng of
        Inl e \<Rightarrow> Some (Inl e)
      | Inr (r, rng') \<Rightarrow>
          (let kg = nat r in
           if kg \<in> set shuffle_keegan then pick_keegan E b shuffle_keegan rng'
           else (case bindE (py_index (tiles b) kg) (is_home E) of
                   Inl e \<Rightarrow> Some (Inl e)
                 | Inr h \<Rightarrow>
                     if h then pick_keegan E b shuffle_keegan rng'
                     else if lock E \<noteq> {} \<and> tiles b ! kg \<in> lock E
                       then pick_keegan E b shuffle_keegan rng'
                     else Some (Inr (kg, rng')))))"

declare pick_keegan.simps [code]

text \<open>The loop \<^verbatim>\<open>for i in range(FLAGS.shuffle)\<close> around it.\<close>

fun choose_positions ::
  "env \<Rightarrow> Board \<Rightarrow> nat \<Rightarrow> nat list \<Rightarrow> rng \<Rightarrow> (error + nat list \<times> rng) option" where
  "choose_positions E b 0 shuffle_keegan rng = Some (Inr (shuffle_keegan, rng))"
| "choose_positions E b (Suc n) shuffle_keegan rng =
     (case pick_keegan E b shuffle_keegan rng of
        None \<Rightarrow> None
      | Some (Inl e) \<Rightarrow> Some (Inl e)
      | Some (Inr (kg, rng')) \<Rightarrow> choose_positions E b n (shuffle_keegan @ [kg]) rng')"

text \<open>
  \<^verbatim>\<open>for i in range(FLAGS.shuffle): self.tiles[shuffle_keegan[i]] = tiles[i]\<close>. Every position
  of \<open>shuffle_keegan\<close> was read from \<open>self.tiles\<close> when it was drawn, so the writes are in range.
\<close>

definition place :: "nat \<Rightarrow> nat list \<Rightarrow> int list \<Rightarrow> int list \<Rightarrow> int list" where
  "place n shuffle_keegan vs ts = foldl (\<lambda>t i. t[shuffle_keegan ! i := vs ! i]) ts [0..<n]"

text \<open>
  One round of the loop over the permutations; the state is the board with the running
  \<open>best_imbalance\<close> and \<open>best_tiles\<close>.
\<close>

definition try_perm ::
  "env \<Rightarrow> nat list \<Rightarrow> Board \<times> pynum \<times> int list \<Rightarrow> int list
     \<Rightarrow> error + Board \<times> pynum \<times> int list" where
  "try_perm E shuffle_keegan st perm =
     (case st of (b, best_imbalance, best_tiles) \<Rightarrow>
       (let n = nat (shuffle E);
            b1 = b\<lparr>tiles := place n shuffle_keegan perm (tiles b)\<rparr>
        in bindE (all_py (\<lambda>i. is_valid E b1 (shuffle_keegan ! i)) [0..<n]) (\<lambda>ok.
             if \<not> ok then Inr (b1, best_imbalance, best_tiles)
             else bindE (update_stats E b1) (\<lambda>b2.
                  bindE (get_imbalance b2) (\<lambda>imbalance.
                    if num_lt imbalance best_imbalance
                    then Inr (b2, imbalance, map (\<lambda>i. tiles b2 ! (shuffle_keegan ! i)) [0..<n])
                    else Inr (b2, best_imbalance, best_tiles))))))"

text \<open>\<^verbatim>\<open>improve\<close> after the positions are chosen.\<close>

definition improve_at :: "env \<Rightarrow> Board \<Rightarrow> nat list \<Rightarrow> error + Board" where
  "improve_at E b shuffle_keegan =
     (let n = nat (shuffle E);
          free_tiles = map (\<lambda>i. tiles b ! i) shuffle_keegan @ unused b
      in bindE (get_imbalance b) (\<lambda>best_imbalance.
         (let best_tiles = map (\<lambda>i. tiles b ! (shuffle_keegan ! i)) [0..<n]
          in bindE (permutations free_tiles (shuffle E)) (\<lambda>perms.
             bindE (foldE (try_perm E shuffle_keegan) (b, best_imbalance, best_tiles) perms) (\<lambda>st.
               (case st of (b1, best_imbalance', best_tiles') \<Rightarrow>
                  bindE (update_stats E (b1\<lparr>tiles := place n shuffle_keegan best_tiles' (tiles b1)\<rparr>))
                    (\<lambda>b2. Inr (update_unused E b2))))))))"

definition improve :: "env \<Rightarrow> Board \<Rightarrow> rng \<Rightarrow> (error + Board \<times> rng) option" where
  "improve E b rng =
     (case choose_positions E b (nat (shuffle E)) [] rng of
        None \<Rightarrow> None
      | Some (Inl e) \<Rightarrow> Some (Inl e)
      | Some (Inr (shuffle_keegan, rng')) \<Rightarrow>
          Some (bindE (improve_at E b shuffle_keegan) (\<lambda>b'. Inr (b', rng'))))"

text \<open>
  \<^verbatim>\<open>Board.optimize(steps)\<close>. The method works on the module's global \<open>board\<close>, which is the
  object it is called on at its only call site; the model takes them as one. It returns the
  imbalance together with the board and the random source it leaves behind.
\<close>

fun optimize_loop ::
  "env \<Rightarrow> nat \<Rightarrow> Board \<Rightarrow> rng \<Rightarrow> (error + pynum \<times> Board \<times> rng) option" where
  "optimize_loop E 0 b rng = Some (bindE (get_imbalance b) (\<lambda>v. Inr (v, b, rng)))"
| "optimize_loop E (Suc n) b rng =
     (case get_imbalance b of
        Inl e \<Rightarrow> Some (Inl e)
      | Inr imbalance \<Rightarrow>
          if num_eq imbalance (PyInt 0) then Some (Inr (PyInt 0, b, rng))
          else (case improve E b rng of
                  None \<Rightarrow> None
                | Some (Inl e) \<Rightarrow> Some (Inl e)
                | Some (Inr (b', rng')) \<Rightarrow> optimize_loop E n b' rng'))"

definition optimize ::
  "env \<Rightarrow> int \<Rightarrow> Board \<Rightarrow> rng \<Rightarrow> (error + pynum \<times> Board \<times> rng) option" where
  "optimize E steps b rng = optimize_loop E (nat steps) b rng"

section \<open>Properties of binary64 rounding\<close>

lemma pow2_pos: "0 < pow2 k"
  by (simp add: pow2_def)

lemma pow2_add: "pow2 (a + b) = pow2 a * pow2 b"
  by (simp add: pow2_def power_int_add)

lemma pow2_less: "a < b \<Longrightarrow> pow2 a < pow2 b"
  by (simp add: pow2_def power_int_strict_increasing)

lemma pow2_le: "a \<le> b \<Longrightarrow> pow2 a \<le> pow2 b"
  by (simp add: pow2_def power_int_increasing)

lemma pow2_less_iff: "pow2 a < pow2 b \<longleftrightarrow> a < b"
  using pow2_less [of a b] pow2_le [of b a] by (auto simp: not_less [symmetric])

lemma pow2_nat: "0 \<le> k \<Longrightarrow> pow2 k = 2 ^ nat k"
  by (simp add: pow2_def power_int_def)

lemma exponent2_bounds:
  assumes "0 < x"
  shows "pow2 (exponent2 x) \<le> x \<and> x < pow2 (exponent2 x + 1)"
proof -
  obtain p q where pq: "quotient_of x = (p, q)" by (cases "quotient_of x")
  have q: "0 < q" using pq by (rule quotient_of_denom_pos)
  have x: "x = of_int p / of_int q" using pq by (rule quotient_of_div)
  have p: "0 < p" using assms q unfolding x by (simp add: zero_less_divide_iff)
  define k where "k = bitlen p - bitlen q"
  have bp: "2 ^ nat (bitlen p - 1) \<le> p" "p < 2 ^ nat (bitlen p)" using bitlen_bounds [OF p] by simp_all
  have bq: "2 ^ nat (bitlen q - 1) \<le> q" "q < 2 ^ nat (bitlen q)" using bitlen_bounds [OF q] by simp_all
  have lp: "1 \<le> bitlen p" using p by (simp add: bitlen_ge_iff_power)
  have lq: "1 \<le> bitlen q" using q by (simp add: bitlen_ge_iff_power)
  have P1: "pow2 (bitlen p - 1) \<le> of_int p"
  proof -
    have "(of_int (2 ^ nat (bitlen p - 1)) :: rat) \<le> of_int p" using bp(1) by (simp only: of_int_le_iff)
    then show ?thesis using lp by (simp add: pow2_nat)
  qed
  have P2: "of_int p < pow2 (bitlen p)"
  proof -
    have "(of_int p :: rat) < of_int (2 ^ nat (bitlen p))" using bp(2) by (simp only: of_int_less_iff)
    then show ?thesis using lp by (simp add: pow2_nat)
  qed
  have Q1: "pow2 (bitlen q - 1) \<le> of_int q"
  proof -
    have "(of_int (2 ^ nat (bitlen q - 1)) :: rat) \<le> of_int q" using bq(1) by (simp only: of_int_le_iff)
    then show ?thesis using lq by (simp add: pow2_nat)
  qed
  have Q2: "of_int q < pow2 (bitlen q)"
  proof -
    have "(of_int q :: rat) < of_int (2 ^ nat (bitlen q))" using bq(2) by (simp only: of_int_less_iff)
    then show ?thesis using lq by (simp add: pow2_nat)
  qed
  have qpos: "(0::rat) < of_int q" using q by simp
  have up: "x < pow2 (k + 1)"
  proof -
    have "of_int p < pow2 (k + 1) * pow2 (bitlen q - 1)"
      using P2 by (simp add: pow2_add [symmetric] k_def)
    also have "\<dots> \<le> pow2 (k + 1) * of_int q"
      using Q1 pow2_pos [of "k + 1"] by (simp add: mult_left_mono)
    finally show ?thesis using qpos unfolding x by (simp add: pos_divide_less_eq)
  qed
  have lo: "pow2 (k - 1) \<le> x"
  proof -
    have "pow2 (k - 1) * of_int q \<le> pow2 (k - 1) * pow2 (bitlen q)"
      using Q2 pow2_pos [of "k - 1"] by (simp add: mult_left_mono)
    also have "\<dots> = pow2 (bitlen p - 1)" by (simp add: pow2_add [symmetric] k_def)
    also have "\<dots> \<le> of_int p" by (rule P1)
    finally show ?thesis using qpos unfolding x by (simp add: pos_le_divide_eq)
  qed
  show ?thesis
  proof (cases "pow2 k \<le> x")
    case True
    then have "exponent2 x = k" by (simp add: exponent2_def pq k_def Let_def)
    with True up show ?thesis by simp
  next
    case False
    then have "exponent2 x = k - 1" by (simp add: exponent2_def pq k_def Let_def)
    with False lo show ?thesis by simp
  qed
qed

lemma pow2_m3: "pow2 (- 3) = 1 / 8"
  by code_simp

lemma round_half_even_of_int: "round_half_even (of_int n) = n"
  by (simp add: round_half_even_def)

text \<open>A multiple of 1/8 whose numerator fits 53 bits is a binary64 number.\<close>

lemma round64_eighths:
  assumes "\<bar>m\<bar> < 2 ^ 53"
  shows "round64 (of_int m / 8) = Finite (of_int m / 8)"
proof (cases "m = 0")
  case True
  then show ?thesis by (simp add: round64_def)
next
  case False
  define x :: rat where "x = of_int m / 8"
  define a where "a = \<bar>x\<bar>"
  have a: "a = of_int \<bar>m\<bar> / 8" by (simp add: a_def x_def)
  have apos: "0 < a" using False by (simp add: a)
  define E where "E = exponent2 a"
  have Eb: "pow2 E \<le> a" "a < pow2 (E + 1)" using exponent2_bounds [OF apos] by (simp_all add: E_def)
  have "1 \<le> \<bar>m\<bar>" using False by simp
  then have "(1::rat) \<le> of_int \<bar>m\<bar>" by (simp only: of_int_1_le_iff)
  then have "pow2 (- 3) \<le> a" by (simp add: a pow2_m3)
  with Eb(2) have "pow2 (- 3) < pow2 (E + 1)" by simp
  then have E1: "- 3 \<le> E" by (simp add: pow2_less_iff)
  have "(of_int \<bar>m\<bar> :: rat) < of_int (2 ^ 53)" using assms by (simp only: of_int_less_iff)
  then have "a < pow2 50" by (simp add: a pow2_nat)
  with Eb(1) have "pow2 E < pow2 50" by simp
  then have E2: "E \<le> 49" by (simp add: pow2_less_iff)
  have e: "max E (- 1022) = E" using E1 by simp
  define N where "N = \<bar>m\<bar> * 2 ^ nat (49 - E)"
  have "pow2 (E - 52) * pow2 (49 - E) = pow2 (- 3)" by (simp add: pow2_add [symmetric])
  then have "pow2 (E - 52) * 2 ^ nat (49 - E) = 1 / 8"
    using E2 by (simp add: pow2_nat pow2_m3)
  then have au: "of_int N * pow2 (E - 52) = a"
    by (simp add: N_def a mult.assoc mult.commute [of "2 ^ nat (49 - E)"])
  have "a / pow2 (E - 52) = of_int N"
    using pow2_pos [of "E - 52"] au by (simp add: nonzero_divide_eq_eq)
  then have r: "of_int (round_half_even (a / pow2 (E - 52))) * pow2 (E - 52) = a"
    using au by (simp add: round_half_even_of_int)
  have "\<lfloor>a\<rfloor> < 2 ^ 50" using \<open>a < pow2 50\<close> by (simp add: floor_less_iff pow2_nat)
  then have "bitlen \<lfloor>a\<rfloor> \<le> 50" by (simp add: bitlen_le_iff_power)
  then have nov: "\<not> 1024 < bitlen \<lfloor>a\<rfloor>" by simp
  have xn: "x \<noteq> 0" using False by (simp add: x_def)
  have "round64 x = Finite (if x > 0 then a else - a)"
    using xn nov r unfolding round64_def Let_def a_def [symmetric] E_def [symmetric] e
    by simp
  also have "(if x > 0 then a else - a) = x" by (simp add: a_def)
  finally show ?thesis by (simp add: x_def)
qed

text \<open>
  For evaluation, the rounding of a multiple of 1/8 in the exact range is skipped: such a number
  is its own rounding. \<open>round64_general\<close> is \<open>round64\<close> under another name, for the other
  numbers.
\<close>

definition round64_general :: "rat \<Rightarrow> pyfloat" where
  "round64_general = round64"

lemma round64_general_code [code]:
  "round64_general x =
     (if x = 0 then Finite 0
      else (let a = \<bar>x\<bar>;
                e = max (exponent2 a) (- 1022);
                ulp = pow2 (e - 52);
                r = of_int (round_half_even (a / ulp)) * ulp
            in if 1024 < bitlen \<lfloor>r\<rfloor> then (if x > 0 then PInf else NInf)
               else Finite (if x > 0 then r else - r)))"
  unfolding round64_general_def by (rule round64_def)

lemma round64_scaled:
  assumes "\<bar>p\<bar> < 1125899906842624" and "c = 1 \<or> c = 2 \<or> c = 4 \<or> c = 8"
  shows "round64 (of_int p * of_int c / 8) = Finite (of_int p * of_int c / 8)"
proof -
  have "\<bar>p\<bar> * c < 1125899906842624 * 8"
    using assms by (elim disjE) simp_all
  moreover have "\<bar>p * c\<bar> = \<bar>p\<bar> * c" using assms(2) by (elim disjE) (simp_all add: abs_mult)
  ultimately have "\<bar>p * c\<bar> < 2 ^ 53" by simp
  from round64_eighths [OF this] show ?thesis by simp
qed

lemma round64_code [code]:
  "round64 x =
     (case quotient_of x of (p, q) \<Rightarrow>
        if (q = 1 \<or> q = 2 \<or> q = 4 \<or> q = 8) \<and> \<bar>p\<bar> < 1125899906842624 then Finite x
        else round64_general x)"
proof -
  obtain p q where pq: "quotient_of x = (p, q)" by (cases "quotient_of x")
  have x: "x = of_int p / of_int q" using pq by (rule quotient_of_div)
  show ?thesis
  proof (cases "(q = 1 \<or> q = 2 \<or> q = 4 \<or> q = 8) \<and> \<bar>p\<bar> < 1125899906842624")
    case False
    then have "(if (q = 1 \<or> q = 2 \<or> q = 4 \<or> q = 8) \<and> \<bar>p\<bar> < 1125899906842624 then Finite x
        else round64_general x) = round64 x"
      by (simp only: if_False round64_general_def simp_thms)
    then show ?thesis by (simp only: pq prod.case)
  next
    case True
    then have b: "\<bar>p\<bar> < 1125899906842624" by (rule conjunct2)
    from True have "q = 1 \<or> q = 2 \<or> q = 4 \<or> q = 8" by (rule conjunct1)
    then have "round64 x = Finite x"
    proof (elim disjE)
      assume "q = 1"
      then have e: "x = of_int p * of_int 8 / 8" unfolding x by simp
      show ?thesis unfolding e by (rule round64_scaled [OF b]) simp
    next
      assume "q = 2"
      then have e: "x = of_int p * of_int 4 / 8" unfolding x by simp
      show ?thesis unfolding e by (rule round64_scaled [OF b]) simp
    next
      assume "q = 4"
      then have e: "x = of_int p * of_int 2 / 8" unfolding x by simp
      show ?thesis unfolding e by (rule round64_scaled [OF b]) simp
    next
      assume "q = 8"
      then have e: "x = of_int p * of_int 1 / 8" unfolding x by simp
      show ?thesis unfolding e by (rule round64_scaled [OF b]) simp
    qed
    moreover have "(if (q = 1 \<or> q = 2 \<or> q = 4 \<or> q = 8) \<and> \<bar>p\<bar> < 1125899906842624 then Finite x
        else round64_general x) = Finite x"
      using True by (simp only: if_True simp_thms)
    ultimately show ?thesis by (simp only: pq prod.case)
  qed
qed

section \<open>Properties of HomeStats and Home\<close>



text \<open>
  Claim C9, as stated (the merge \<open>+=\<close> of two statistics objects is commutative in every field,
  the sequence of skips included), fails: the skips of the right operand are appended to those
  of the left one. Two 2-hop statistics that hold one skip each are merged into different
  sequences, depending on the side.
\<close>

definition stats_blue :: HomeStats where
  "stats_blue = (HomeStats_init 2 (Some ''U''))\<lparr>skips := [''blue'']\<rparr>"

definition stats_red :: HomeStats where
  "stats_red = (HomeStats_init 2 (Some ''U''))\<lparr>skips := [''red'']\<rparr>"

theorem iadd_not_commutative:
  "skips (iadd stats_blue stats_red) = [''blue'', ''red'']
   \<and> skips (iadd stats_red stats_blue) = [''red'', ''blue'']
   \<and> iadd stats_blue stats_red \<noteq> iadd stats_red stats_blue"
  by (simp add: iadd_def stats_blue_def stats_red_def HomeStats_init_def)

text \<open>
  Claim C9, amended. The merge is associative in every field. Each numeric statistic of the
  result is the sum of the operands' statistics, hence the same on either side; the sequence of
  skips of the result is the left operand's sequence followed by the right operand's, hence
  the same on either side only up to the order of its entries (the same multiset, the same
  length). The fields \<open>hop\<close> and \<open>sub_category\<close>, which are no statistics, are those of the
  left operand.
\<close>

theorem iadd_assoc_comm_up_to_order:
  "iadd (iadd a b) c = iadd a (iadd b c)
   \<and> skips (iadd a b) = skips a @ skips b
   \<and> resource (iadd a b) = resource a + resource b
   \<and> influence (iadd a b) = influence a + influence b
   \<and> eff_resource (iadd a b) = eff_resource a + eff_resource b
   \<and> eff_influence (iadd a b) = eff_influence a + eff_influence b
   \<and> eff_both (iadd a b) = eff_both a + eff_both b
   \<and> worms (iadd a b) = worms a + worms b
   \<and> anomalies (iadd a b) = anomalies a + anomalies b
   \<and> planet_systems (iadd a b) = planet_systems a + planet_systems b
   \<and> hop (iadd a b) = hop a
   \<and> sub_category (iadd a b) = sub_category a
   \<and> resource (iadd a b) = resource (iadd b a)
   \<and> influence (iadd a b) = influence (iadd b a)
   \<and> eff_resource (iadd a b) = eff_resource (iadd b a)
   \<and> eff_influence (iadd a b) = eff_influence (iadd b a)
   \<and> eff_both (iadd a b) = eff_both (iadd b a)
   \<and> worms (iadd a b) = worms (iadd b a)
   \<and> anomalies (iadd a b) = anomalies (iadd b a)
   \<and> planet_systems (iadd a b) = planet_systems (iadd b a)
   \<and> mset (skips (iadd a b)) = mset (skips (iadd b a))
   \<and> length (skips (iadd a b)) = length (skips (iadd b a))"
  by (simp add: iadd_def)

section \<open>Properties of the hex geometry\<close>

lemma ring_side_length: "length (fst (ring_side side k st)) = length (fst st) + k"
  by (induction side k st rule: ring_side.induct) auto

lemma ring_side_hd: "fst st \<noteq> [] \<Longrightarrow> hd (fst (ring_side side k st)) = hd (fst st)"
  by (induction side k st rule: ring_side.induct) auto

lemma ring_side_hd_empty: "0 < k \<Longrightarrow> hd (fst (ring_side side k ([], c))) = c"
  by (cases k) (auto simp: ring_side_hd)

definition zero_sum :: "coord \<Rightarrow> bool" where
  "zero_sum c = (fst c + fst (snd c) + snd (snd c) = 0)"

lemma zero_sum_add: "zero_sum a \<Longrightarrow> zero_sum b \<Longrightarrow> zero_sum (cube_add a b)"
  by (cases a; cases b) (auto simp: zero_sum_def)

lemma ring_side_zero_sum:
  "zero_sum side \<Longrightarrow> list_all zero_sum (fst st) \<Longrightarrow> zero_sum (snd st) \<Longrightarrow>
   list_all zero_sum (fst (ring_side side k st)) \<and> zero_sum (snd (ring_side side k st))"
  by (induction side k st rule: ring_side.induct) (auto simp: zero_sum_add)

lemma ring_walk_zero_sum:
  "list_all zero_sum sides \<Longrightarrow> list_all zero_sum (fst st) \<Longrightarrow> zero_sum (snd st) \<Longrightarrow>
   list_all zero_sum (fst (foldl (\<lambda>st side. ring_side side k st) st sides))"
  by (induction sides arbitrary: st) (auto simp: ring_side_zero_sum)

lemma ring_walk_length:
  "length (fst (foldl (\<lambda>st side. ring_side side k st) st sides)) = length (fst st) + length sides * k"
  by (induction sides arbitrary: st) (auto simp: ring_side_length)

lemma ring_walk_hd:
  "fst st \<noteq> [] \<Longrightarrow> hd (fst (foldl (\<lambda>st side. ring_side side k st) st sides)) = hd (fst st)"
proof (induction sides arbitrary: st)
  case Nil then show ?case by simp
next
  case (Cons s sides)
  have "fst (ring_side s k st) \<noteq> []"
    using Cons.prems ring_side_length [of s k st] by (metis length_0_conv add_is_0)
  then show ?case using Cons by (simp add: ring_side_hd)
qed

lemma NEIGHBORS_zero_sum: "list_all zero_sum NEIGHBORS"
  by (simp add: NEIGHBORS_def zero_sum_def)

lemma cube_ring_zero_sum: "list_all zero_sum (cube_ring n)"
proof (cases "n \<le> 0")
  case True
  then show ?thesis by (simp add: cube_ring_def zero_sum_def)
next
  case False
  have "list_all zero_sum
          (fst (foldl (\<lambda>st side. ring_side side (nat n) st) ([], (0, - n, n)) NEIGHBORS))"
    by (rule ring_walk_zero_sum [OF NEIGHBORS_zero_sum]) (simp_all add: zero_sum_def)
  with False show ?thesis by (simp add: cube_ring_def)
qed

lemma cube_ring_length: "0 < n \<Longrightarrow> length (cube_ring n) = nat (6 * n)"
  by (simp add: cube_ring_def ring_walk_length) (simp add: NEIGHBORS_def)

lemma cube_ring_hd: "0 < n \<Longrightarrow> hd (cube_ring n) = (0, - n, n)"
proof -
  assume n: "0 < n"
  obtain s ss where N: "NEIGHBORS = s # ss" by (simp add: NEIGHBORS_def)
  have k: "0 < nat n" using n by simp
  have ne: "fst (ring_side s (nat n) ([], (0, - n, n))) \<noteq> []"
    using ring_side_length [of s "nat n" "([], (0, - n, n))"] k by auto
  show ?thesis
    using n by (simp add: cube_ring_def N ring_walk_hd [OF ne] ring_side_hd_empty [OF k])
qed

lemma KEEGAN_TO_COORD_zero_sum: "list_all zero_sum KEEGAN_TO_COORD"
  using cube_ring_zero_sum by (auto simp: KEEGAN_TO_COORD_def list_all_iff)

lemma KEEGAN_TO_COORD_value:
  "KEEGAN_TO_COORD =
    [(0, 0, 0), (0, - 1, 1), (1, - 1, 0), (1, 0, - 1), (0, 1, - 1),
     (- 1, 1, 0), (- 1, 0, 1), (0, - 2, 2), (1, - 2, 1), (2, - 2, 0),
     (2, - 1, - 1), (2, 0, - 2), (1, 1, - 2), (0, 2, - 2), (- 1, 2, - 1),
     (- 2, 2, 0), (- 2, 1, 1), (- 2, 0, 2), (- 1, - 1, 2), (0, - 3, 3),
     (1, - 3, 2), (2, - 3, 1), (3, - 3, 0), (3, - 2, - 1), (3, - 1, - 2),
     (3, 0, - 3), (2, 1, - 3), (1, 2, - 3), (0, 3, - 3), (- 1, 3, - 2),
     (- 2, 3, - 1), (- 3, 3, 0), (- 3, 2, 1), (- 3, 1, 2), (- 3, 0, 3),
     (- 2, - 1, 3), (- 1, - 2, 3), (0, - 4, 4), (1, - 4, 3), (2, - 4, 2),
     (3, - 4, 1), (4, - 4, 0), (4, - 3, - 1), (4, - 2, - 2), (4, - 1, - 3),
     (4, 0, - 4), (3, 1, - 4), (2, 2, - 4), (1, 3, - 4), (0, 4, - 4),
     (- 1, 4, - 3), (- 2, 4, - 2), (- 3, 4, - 1), (- 4, 4, 0), (- 4, 3, 1),
     (- 4, 2, 2), (- 4, 1, 3), (- 4, 0, 4), (- 3, - 1, 4), (- 2, - 2, 4),
     (- 1, - 3, 4)]"
  by code_simp

lemma KEEGAN_TO_COORD_length: "length KEEGAN_TO_COORD = 61"
  by (simp add: KEEGAN_TO_COORD_value)

lemma KEEGAN_TO_COORD_distinct: "distinct KEEGAN_TO_COORD"
  by (simp add: KEEGAN_TO_COORD_value)

lemma build_index_map:
  assumes "distinct xs" and "n \<le> length xs"
  shows "(foldl (\<lambda>m k. m(xs ! k \<mapsto> k)) Map.empty [0..<n]) c = Some k \<longleftrightarrow> k < n \<and> xs ! k = c"
proof -
  define f where "f = (\<lambda>(m :: 'a \<rightharpoonup> nat) k. m(xs ! k \<mapsto> k))"
  have "n \<le> length xs \<Longrightarrow> (foldl f Map.empty [0..<n]) c = Some k \<longleftrightarrow> k < n \<and> xs ! k = c"
  proof (induction n arbitrary: k)
    case 0
    then show ?case by simp
  next
    case (Suc n)
    have le: "n \<le> length xs" using Suc.prems by simp
    have step: "foldl f Map.empty [0..<Suc n] = (foldl f Map.empty [0..<n])(xs ! n \<mapsto> n)"
      by (simp add: f_def)
    show ?case
    proof (cases "c = xs ! n")
      case True
      have "k < Suc n \<and> xs ! k = xs ! n \<longleftrightarrow> k = n"
        using assms(1) Suc.prems by (auto simp: nth_eq_iff_index_eq)
      with True show ?thesis unfolding step by auto
    next
      case False
      then have "k < Suc n \<and> xs ! k = c \<longleftrightarrow> k < n \<and> xs ! k = c"
        by (auto simp: less_Suc_eq)
      with False Suc.IH [OF le, of k] show ?thesis unfolding step by simp
    qed
  qed
  with assms(2) show ?thesis unfolding f_def by simp
qed

lemma COORD_TO_KEEGAN_iff:
  "COORD_TO_KEEGAN c = Some k \<longleftrightarrow> k < length KEEGAN_TO_COORD \<and> KEEGAN_TO_COORD ! k = c"
  unfolding COORD_TO_KEEGAN_def
  by (rule build_index_map [OF KEEGAN_TO_COORD_distinct]) simp

text \<open>
  Claim C8. Every cube coordinate of the built position table has \<open>q + r + s = 0\<close>; the table
  has the 61 positions 0..60, and the position-to-coordinate table and the coordinate-to-position
  map are inverses of each other over it; for every \<open>n > 0\<close> the ring \<open>cube_ring n\<close> has exactly
  \<open>6n\<close> coordinates and starts at \<open>(0,-n,n)\<close>.
\<close>

theorem coordinate_tables:
  "(\<forall>c \<in> set KEEGAN_TO_COORD. fst c + fst (snd c) + snd (snd c) = 0)
   \<and> length KEEGAN_TO_COORD = 61
   \<and> (\<forall>k < length KEEGAN_TO_COORD. COORD_TO_KEEGAN (KEEGAN_TO_COORD ! k) = Some k)
   \<and> (\<forall>c k. COORD_TO_KEEGAN c = Some k \<longrightarrow> k < length KEEGAN_TO_COORD \<and> KEEGAN_TO_COORD ! k = c)
   \<and> (\<forall>n > 0. length (cube_ring n) = nat (6 * n) \<and> cube_ring n ! 0 = (0, - n, n))"
proof -
  have a: "\<forall>c \<in> set KEEGAN_TO_COORD. fst c + fst (snd c) + snd (snd c) = 0"
    using KEEGAN_TO_COORD_zero_sum by (simp add: list_all_iff zero_sum_def)
  have e: "\<forall>n > 0. length (cube_ring n) = nat (6 * n) \<and> cube_ring n ! 0 = (0, - n, n)"
  proof (intro allI impI)
    fix n :: int assume n: "0 < n"
    then have "cube_ring n \<noteq> []" using cube_ring_length [OF n] by auto
    then have "cube_ring n ! 0 = hd (cube_ring n)" by (simp add: hd_conv_nth)
    then show "length (cube_ring n) = nat (6 * n) \<and> cube_ring n ! 0 = (0, - n, n)"
      using cube_ring_length [OF n] cube_ring_hd [OF n] by simp
  qed
  show ?thesis
    using a e KEEGAN_TO_COORD_length by (simp add: COORD_TO_KEEGAN_iff)
qed

theorem coordinate_tables_witness:
  "KEEGAN_TO_COORD ! 4 = (0, 1, -1) \<and> (0, 1, -1) \<in> set KEEGAN_TO_COORD
   \<and> 0 + 1 + (-1) = (0::int)
   \<and> COORD_TO_KEEGAN (0, 1, -1) = Some 4
   \<and> length (cube_ring 2) = 12 \<and> cube_ring 2 ! 0 = (0, -2, 2)"
proof -
  have v: "KEEGAN_TO_COORD ! 4 = (0, 1, -1)" by (simp add: KEEGAN_TO_COORD_value)
  have l: "(4::nat) < length KEEGAN_TO_COORD" by (simp add: KEEGAN_TO_COORD_value)
  have m: "(0, 1, -1) \<in> set KEEGAN_TO_COORD" using v l nth_mem by metis
  have p: "(0::int) < 2" by simp
  from coordinate_tables have
    t3: "\<forall>k < length KEEGAN_TO_COORD. COORD_TO_KEEGAN (KEEGAN_TO_COORD ! k) = Some k" and
    t5: "\<forall>n > 0. length (cube_ring n) = nat (6 * n) \<and> cube_ring n ! 0 = (0, - n, n)"
    by blast+
  from t3 l v have "COORD_TO_KEEGAN (0, 1, -1) = Some 4" by metis
  moreover from t5 p have "length (cube_ring 2) = nat (6 * 2) \<and> cube_ring 2 ! 0 = (0, - 2, 2)" by blast
  ultimately show ?thesis using v m by simp
qed

text \<open>
  The two tables as literals, for evaluation: computed once here, they replace the defining
  equations as code equations.
\<close>

lemma KEEGAN_ADJACENT_value:
  "KEEGAN_ADJACENT =
    [[3, 4, 5, 6, 1, 2], [2, 0, 6, 18, 7, 8], [10, 3, 0, 1, 8, 9], [11, 12, 4, 0, 2, 10],
     [12, 13, 14, 5, 0, 3], [4, 14, 15, 16, 6, 0], [0, 5, 16, 17, 18, 1], [8, 1, 18, 36, 19, 20],
     [9, 2, 1, 7, 20, 21], [23, 10, 2, 8, 21, 22], [24, 11, 3, 2, 9, 23], [25, 26, 12, 3, 10, 24],
     [26, 27, 13, 4, 3, 11], [27, 28, 29, 14, 4, 12], [13, 29, 30, 15, 5, 4],
     [14, 30, 31, 32, 16, 5], [5, 15, 32, 33, 17, 6], [6, 16, 33, 34, 35, 18],
     [1, 6, 17, 35, 36, 7], [20, 7, 36, 60, 37, 38], [21, 8, 7, 19, 38, 39],
     [22, 9, 8, 20, 39, 40], [42, 23, 9, 21, 40, 41], [43, 24, 10, 9, 22, 42],
     [44, 25, 11, 10, 23, 43], [45, 46, 26, 11, 24, 44], [46, 47, 27, 12, 11, 25],
     [47, 48, 28, 13, 12, 26], [48, 49, 50, 29, 13, 27], [28, 50, 51, 30, 14, 13],
     [29, 51, 52, 31, 15, 14], [30, 52, 53, 54, 32, 15], [15, 31, 54, 55, 33, 16],
     [16, 32, 55, 56, 34, 17], [17, 33, 56, 57, 58, 35], [18, 17, 34, 58, 59, 36],
     [7, 18, 35, 59, 60, 19], [38, 19, 60], [39, 20, 19, 37], [40, 21, 20, 38], [41, 22, 21, 39],
     [42, 22, 40], [43, 23, 22, 41], [44, 24, 23, 42], [45, 25, 24, 43], [46, 25, 44],
     [47, 26, 25, 45], [48, 27, 26, 46], [49, 28, 27, 47], [50, 28, 48], [49, 51, 29, 28],
     [50, 52, 30, 29], [51, 53, 31, 30], [52, 54, 31], [31, 53, 55, 32], [32, 54, 56, 33],
     [33, 55, 57, 34], [34, 56, 58], [35, 34, 57, 59], [36, 35, 58, 60], [19, 36, 59, 37]]"
  by code_simp

lemma KEEGAN_ADJACENT_length: "length KEEGAN_ADJACENT = 61"
  by (simp add: KEEGAN_ADJACENT_def KEEGAN_TO_COORD_length)

declare KEEGAN_TO_COORD_value [code]

declare KEEGAN_ADJACENT_value [code]

section \<open>Properties of random board generation\<close>




lemma sample_error: "sample pool k rng = (Inl e, rng') \<Longrightarrow> e = ValueError \<and> rng' = rng"
  by (auto simp: sample_def split: if_splits prod.splits)


lemma del_required_error: "del_required rs xs = Inl e \<Longrightarrow> e = ValueError"
  by (induction rs arbitrary: xs) (auto split: if_splits)















text \<open>
  Claim C7. Random generation for a player count other than 4, 6 or 8 raises the
  unsupported-player-count error and leaves the random source as it was (it has no other
  state); for 4, 6 or 8 it never raises that error.
\<close>

theorem unsupported_player_count:
  "(n \<notin> {4,6,8} \<longrightarrow> generate_random_board E n rng = (Inl UnsupportedPlayerCount, rng))
   \<and> (n \<in> {4,6,8} \<longrightarrow> fst (generate_random_board E n rng) \<noteq> Inl UnsupportedPlayerCount)"
proof (intro conjI impI)
  assume "n \<notin> {4,6,8}"
  then show "generate_random_board E n rng = (Inl UnsupportedPlayerCount, rng)"
    by (simp add: generate_random_board_def home_keegan_of_def)
next
  assume n: "n \<in> {4,6,8}"
  then obtain hk where hk: "home_keegan_of n = Inr hk"
    by (auto simp: home_keegan_of_def)
  show "fst (generate_random_board E n rng) \<noteq> Inl UnsupportedPlayerCount"
    using hk
    by (auto simp: generate_random_board_def Let_def split: sum.splits prod.splits
        dest!: del_required_error sample_error)
qed


text \<open>An example catalog of 43 blank non-home tiles, 18 to 60, with tiles 40 and 42 required.\<close>

definition blank_tile :: tile where
  "blank_tile = \<lparr>t_resource = 0, t_influence = 0, skip = None, anomaly = None, worm = None,
     planets = [], home = None\<rparr>"

definition env_gen :: env where
  "env_gen = \<lparr>TILES = (\<lambda>t. if 18 \<le> t \<and> t \<le> 60 then Some blank_tile else None),
     NONHOME_TILES = map int [18..<61], shuffle = 3, require = [40, 42], lock = {}, exclude = {}\<rparr>"

definition rng7 :: rng where
  "rng7 = Rng (\<lambda>i. 7 * i + 3)"






theorem unsupported_player_count_witness:
  "generate_random_board env_gen 5 rng7 = (Inl UnsupportedPlayerCount, rng7)
   \<and> fst (generate_random_board env_gen 4 rng7) \<noteq> Inl UnsupportedPlayerCount"
  using unsupported_player_count [of 5 env_gen rng7] unsupported_player_count [of 4 env_gen rng7]
  by simp

end
